theory Spec2Isabelle
  imports Complex_Main "HOL-Library.AList" "HOL-Library.Product_Lexorder"
begin

text \<open>
  A shallow embedding of the analytics core of the Learning Intelligence Tool: the risk
  thresholds, the chapter difficulty analysis, the record validator, the preprocessor and
  the student-feature aggregation. Frames are lists (of rows, or of named columns for the
  raw input), floats are exact reals with NaN as a separate value where it can occur, and
  a raised exception is the left injection of a sum.
\<close>

section \<open>Risk classification (src/models/dropout\_detector.py, src/config.py)\<close>

text \<open>
  Scores and rates are Python floats in the source; they are modelled as exact reals, so
  the thresholds \<open>0.7\<close> and \<open>0.4\<close> are the rationals 7/10 and 4/10 and NaN does not occur.
\<close>

datatype risk_level = High | Medium | Low

definition HIGH_RISK_THRESHOLD :: real where
  "HIGH_RISK_THRESHOLD = 7 / 10"

definition MEDIUM_RISK_THRESHOLD :: real where
  "MEDIUM_RISK_THRESHOLD = 4 / 10"

text \<open>
  The element-wise body of \<open>predict_risk_level\<close>:
  \<open>np.where(s >= HIGH, 'High', np.where(s >= MEDIUM, 'Medium', 'Low'))\<close>.
\<close>

definition risk_level_of :: "real \<Rightarrow> risk_level" where
  "risk_level_of s =
     (if s \<ge> HIGH_RISK_THRESHOLD then High
      else if s \<ge> MEDIUM_RISK_THRESHOLD then Medium
      else Low)"

datatype py_error = ValueError string

text \<open>
  The detector holds the \<open>is_trained\<close> flag and the fitted estimator; the estimator is an
  external collaborator, taken here as the function that maps the feature rows to the
  dropout probabilities (\<open>predict_proba(...)[:, 1]\<close>).
\<close>

record 'x dropout_detector =
  is_trained :: bool
  predict_proba :: "'x list \<Rightarrow> real list"

definition predict_risk_score :: "'x dropout_detector \<Rightarrow> 'x list \<Rightarrow> py_error + real list" where
  "predict_risk_score d X =
     (if \<not> is_trained d then Inl (ValueError ''Model must be trained before prediction'')
      else Inr (predict_proba d X))"

definition predict_risk_level :: "'x dropout_detector \<Rightarrow> 'x list \<Rightarrow> py_error + risk_level list" where
  "predict_risk_level d X =
     (case predict_risk_score d X of
        Inl e \<Rightarrow> Inl e
      | Inr risk_scores \<Rightarrow> Inr (map risk_level_of risk_scores))"

section \<open>Chapter difficulty (src/models/difficulty\_analyzer.py, src/config.py)\<close>

text \<open>
  One row of the chapter-feature frame that \<open>analyze_difficulty\<close> reads. The columns it
  does not read or return (\<open>score_std\<close>, \<open>time_std\<close>, \<open>completions\<close>, \<open>attempts\<close>) are left out.
\<close>

record chapter_features =
  cf_course_id :: int
  cf_chapter_order :: int
  dropout_rate :: real
  avg_time_spent :: real
  avg_score :: real
  completion_rate :: real
  student_count :: nat

datatype difficulty_label = Easy | Medium_difficulty | Hard

text \<open>
  A row of the returned frame: the feature columns kept by the final column selection,
  with the three computed columns. \<open>difficulty_level\<close> is \<open>None\<close> where \<open>pd.cut\<close> gives NaN.
\<close>

record difficulty_assessment = chapter_features +
  difficulty_score :: real
  difficulty_level :: "difficulty_label option"
  difficulty_rank :: nat

record difficulty_weights =
  w_dropout_rate :: real
  w_avg_time :: real
  w_avg_score :: real
  w_completion_rate :: real

definition DIFFICULTY_WEIGHTS :: difficulty_weights where
  "DIFFICULTY_WEIGHTS =
     \<lparr>w_dropout_rate = 35 / 100, w_avg_time = 25 / 100,
      w_avg_score = 30 / 100, w_completion_rate = 10 / 100\<rparr>"

text \<open>
  \<open>_normalize\<close>: min-max scaling of a series. On an empty series pandas' \<open>min()\<close> and
  \<open>max()\<close> are NaN, the test \<open>max_val == min_val\<close> is false and the element-wise
  arithmetic returns the empty series.
\<close>

definition normalize_series :: "real list \<Rightarrow> real list" where
  "normalize_series series =
     (if series = [] then []
      else let min_val = Min (set series); max_val = Max (set series)
           in if max_val = min_val then replicate (length series) 0
              else map (\<lambda>x. (x - min_val) / (max_val - min_val)) series)"

text \<open>
  \<open>pd.cut(x, bins, labels, include_lowest)\<close> with the default \<open>right=True\<close>, as pandas
  computes it: \<open>ids = bins.searchsorted(x, side='left')\<close>, the number of bin edges strictly
  below \<open>x\<close>; with \<open>include_lowest\<close> a value equal to the first edge gets \<open>ids = 1\<close>; \<open>ids = 0\<close>
  and \<open>ids = len(bins)\<close> are NaN; otherwise the label is \<open>labels[ids - 1]\<close>.
\<close>

definition searchsorted_left :: "real list \<Rightarrow> real \<Rightarrow> nat" where
  "searchsorted_left bins x = length (filter (\<lambda>b. b < x) bins)"

definition cut :: "real list \<Rightarrow> 'a list \<Rightarrow> bool \<Rightarrow> real \<Rightarrow> 'a option" where
  "cut bins labels include_lowest x =
     (case bins of
        [] \<Rightarrow> None
      | b0 # _ \<Rightarrow>
          let ids = (if include_lowest \<and> x = b0 then 1 else searchsorted_left bins x)
          in if ids = length bins \<or> ids = 0 then None
             else if ids - 1 < length labels then Some (labels ! (ids - 1)) else None)"

definition difficulty_level_of :: "real \<Rightarrow> difficulty_label option" where
  "difficulty_level_of s = cut [0, 33, 66, 100] [Easy, Medium_difficulty, Hard] True s"

text \<open>
  \<open>Series.rank(ascending=False, method='dense')\<close>: the rank of a value is one more than
  the number of distinct values of the series that are strictly greater.
\<close>

definition dense_rank_desc :: "real list \<Rightarrow> real \<Rightarrow> nat" where
  "dense_rank_desc series x = Suc (length (filter (\<lambda>v. x < v) (remdups series)))"

text \<open>The weighted sum of the four normalised columns at row \<open>i\<close>, scaled to 0-100.\<close>

definition difficulty_scores :: "difficulty_weights \<Rightarrow> chapter_features list \<Rightarrow> real list" where
  "difficulty_scores weights df =
     (let dropout_rate_norm = normalize_series (map dropout_rate df);
          avg_time_norm = normalize_series (map avg_time_spent df);
          avg_score_norm = map (\<lambda>v. 1 - v) (normalize_series (map avg_score df));
          completion_rate_norm = map (\<lambda>v. 1 - v) (normalize_series (map completion_rate df))
      in map (\<lambda>i. (dropout_rate_norm ! i * w_dropout_rate weights +
                    avg_time_norm ! i * w_avg_time weights +
                    avg_score_norm ! i * w_avg_score weights +
                    completion_rate_norm ! i * w_completion_rate weights) * 100)
             [0..<length df])"

definition assess_row :: "real list \<Rightarrow> chapter_features \<Rightarrow> real \<Rightarrow> difficulty_assessment" where
  "assess_row scores cf s =
     chapter_features.extend cf
       (difficulty_assessment.fields s (difficulty_level_of s) (dense_rank_desc scores s))"

text \<open>
  \<open>analyze_difficulty\<close>. The final \<open>sort_values('difficulty_score', ascending=False)\<close> is
  modelled as a stable sort on the negated score; pandas' default sort does not fix the
  order of rows with equal scores, and nothing below depends on that order.
\<close>

definition analyze_difficulty_with :: "difficulty_weights \<Rightarrow> chapter_features list \<Rightarrow> difficulty_assessment list" where
  "analyze_difficulty_with weights chapter_features =
     (let scores = difficulty_scores weights chapter_features;
          result = map (\<lambda>(cf, s). assess_row scores cf s) (zip chapter_features scores)
      in sort_key (\<lambda>r. - difficulty_score r) result)"

definition analyze_difficulty :: "chapter_features list \<Rightarrow> difficulty_assessment list" where
  "analyze_difficulty = analyze_difficulty_with DIFFICULTY_WEIGHTS"


definition get_chapters_needing_improvement :: "chapter_features list \<Rightarrow> real \<Rightarrow> difficulty_assessment list" where
  "get_chapters_needing_improvement chapter_features threshold =
     filter (\<lambda>r. difficulty_score r \<ge> threshold) (analyze_difficulty chapter_features)"

section \<open>Record validation (src/data/ingestion.py, src/config.py)\<close>

text \<open>
  A raw DataFrame, as \<open>pd.read_csv\<close> or a caller hands it to \<open>validate_data\<close>: named
  columns in order, each a list of cells. A cell is a number, a string or missing (NaN).
\<close>

datatype cell = Num real | Str string | NaN

type_synonym dataframe = "(string \<times> cell list) list"

definition REQUIRED_COLUMNS :: "string list" where
  "REQUIRED_COLUMNS =
     [''student_id'', ''course_id'', ''chapter_order'', ''time_spent'', ''score'',
      ''completion_status'']"

text \<open>
  The failures of \<open>validate_data\<close>, all raised as \<open>DataValidationError\<close> in the source, told
  apart by their message: "Input data is empty", "Missing required columns: ...",
  "Data type validation failed: Some numeric columns contain invalid values",
  "Score values must be between 0 and 100", "Time spent values must be non-negative",
  "Chapter order must start from 1", "Completion status must be 0 or 1".
\<close>

datatype DataValidationError =
    InputDataIsEmpty
  | MissingRequiredColumns "string list"
  | DataTypeValidationFailed
  | ScoreOutOfRange
  | TimeSpentNegative
  | ChapterOrderBelowOne
  | CompletionStatusNotBinary

definition n_rows :: "dataframe \<Rightarrow> nat" where
  "n_rows df = (case df of [] \<Rightarrow> 0 | (_, col) # _ \<Rightarrow> length col)"

text \<open>\<open>df.empty\<close>: one of the two axes has length 0.\<close>

definition df_empty :: "dataframe \<Rightarrow> bool" where
  "df_empty df = (df = [] \<or> n_rows df = 0)"

text \<open>
  \<open>df[c]\<close> for reading; \<open>validate_data\<close> reads a column only after the check that every
  required column is present, so the KeyError of a missing column cannot occur there.
\<close>

definition get_col :: "dataframe \<Rightarrow> string \<Rightarrow> cell list" where
  "get_col df c = (case map_of df c of Some col \<Rightarrow> col | None \<Rightarrow> [])"

text \<open>\<open>df[c] = col\<close>: replaces the column in place, or appends a new one.\<close>

definition set_col :: "dataframe \<Rightarrow> string \<Rightarrow> cell list \<Rightarrow> dataframe" where
  "set_col df c col = AList.update c col df"

text \<open>
  \<open>pd.to_numeric(series, errors='coerce')\<close> on one cell. How pandas reads a string as a
  number is library code; it is the parameter \<open>parse\<close>, which returns \<open>None\<close> for a string
  that is not a number. Such a string becomes NaN.
\<close>

definition to_numeric :: "(string \<Rightarrow> real option) \<Rightarrow> cell \<Rightarrow> cell" where
  "to_numeric parse c =
     (case c of
        Num x \<Rightarrow> Num x
      | Str s \<Rightarrow> (case parse s of Some x \<Rightarrow> Num x | None \<Rightarrow> NaN)
      | NaN \<Rightarrow> NaN)"

definition isna :: "cell \<Rightarrow> bool" where
  "isna c = (c = NaN)"

text \<open>Comparisons of a numeric series with a constant; NaN compares false.\<close>

definition cell_lt :: "cell \<Rightarrow> real \<Rightarrow> bool" where
  "cell_lt c k = (case c of Num x \<Rightarrow> x < k | _ \<Rightarrow> False)"

definition cell_gt :: "cell \<Rightarrow> real \<Rightarrow> bool" where
  "cell_gt c k = (case c of Num x \<Rightarrow> x > k | _ \<Rightarrow> False)"

definition cell_isin :: "cell \<Rightarrow> real list \<Rightarrow> bool" where
  "cell_isin c ks = (case c of Num x \<Rightarrow> x \<in> set ks | _ \<Rightarrow> False)"

definition missing_columns :: "dataframe \<Rightarrow> string list" where
  "missing_columns df = filter (\<lambda>c. c \<notin> set (map fst df)) REQUIRED_COLUMNS"

text \<open>The four assignments \<open>df[c] = pd.to_numeric(df[c], errors='coerce')\<close>, in order.\<close>

definition coerce_column :: "(string \<Rightarrow> real option) \<Rightarrow> string \<Rightarrow> dataframe \<Rightarrow> dataframe" where
  "coerce_column parse c df = set_col df c (map (to_numeric parse) (get_col df c))"

definition coerce_numeric_columns :: "(string \<Rightarrow> real option) \<Rightarrow> dataframe \<Rightarrow> dataframe" where
  "coerce_numeric_columns parse df =
     coerce_column parse ''completion_status''
       (coerce_column parse ''chapter_order''
         (coerce_column parse ''score''
           (coerce_column parse ''time_spent'' df)))"

text \<open>
  \<open>validate_data\<close> returns nothing or raises, and assigns to columns of the frame it was
  given. The model returns the outcome together with the caller's frame as the call leaves
  it. The \<open>try\<close> block re-raises its own error as a \<open>DataValidationError\<close>.
\<close>

definition validate_data ::
  "(string \<Rightarrow> real option) \<Rightarrow> dataframe \<Rightarrow> (DataValidationError + unit) \<times> dataframe" where
  "validate_data parse df =
     (if df_empty df then (Inl InputDataIsEmpty, df)
      else if missing_columns df \<noteq> [] then (Inl (MissingRequiredColumns (missing_columns df)), df)
      else
        let df' = coerce_numeric_columns parse df in
        if list_ex isna (get_col df' ''time_spent'' @ get_col df' ''score'' @ get_col df' ''chapter_order'')
          then (Inl DataTypeValidationFailed, df')
        else if list_ex (\<lambda>c. cell_lt c 0) (get_col df' ''score'')
                \<or> list_ex (\<lambda>c. cell_gt c 100) (get_col df' ''score'')
          then (Inl ScoreOutOfRange, df')
        else if list_ex (\<lambda>c. cell_lt c 0) (get_col df' ''time_spent'')
          then (Inl TimeSpentNegative, df')
        else if list_ex (\<lambda>c. cell_lt c 1) (get_col df' ''chapter_order'')
          then (Inl ChapterOrderBelowOne, df')
        else if \<not> list_all (\<lambda>c. cell_isin c [0, 1]) (get_col df' ''completion_status'')
          then (Inl CompletionStatusNotBinary, df')
        else (Inr (), df'))"

text \<open>
  A sample reader for concrete evaluations: unsigned decimal integers, nothing else. The
  theorems about \<open>validate_data\<close> hold for every \<open>parse\<close>.
\<close>

definition digit_of :: "char \<Rightarrow> nat option" where
  "digit_of c = (let n = (of_char c :: nat) in if 48 \<le> n \<and> n \<le> 57 then Some (n - 48) else None)"

fun parse_digits :: "nat \<Rightarrow> string \<Rightarrow> nat option" where
  "parse_digits acc [] = Some acc"
| "parse_digits acc (c # cs) =
     (case digit_of c of None \<Rightarrow> None | Some d \<Rightarrow> parse_digits (10 * acc + d) cs)"

definition parse_unsigned :: "string \<Rightarrow> real option" where
  "parse_unsigned s = (if s = [] then None else map_option real (parse_digits 0 s))"


text \<open>One-row frames for concrete evaluations.\<close>

definition one_row :: "cell \<Rightarrow> cell \<Rightarrow> cell \<Rightarrow> cell \<Rightarrow> cell \<Rightarrow> cell \<Rightarrow> dataframe" where
  "one_row sid cid ch t sc fin =
     [(''student_id'', [sid]), (''course_id'', [cid]), (''chapter_order'', [ch]),
      (''time_spent'', [t]), (''score'', [sc]), (''completion_status'', [fin])]"

section \<open>Preprocessing (src/data/preprocessing.py)\<close>

text \<open>
  One row of the numeric frame that the preprocessor and the feature aggregators work on.
  A missing value (NaN) of a float column is \<open>None\<close>.
\<close>

record chapter_event =
  student_id :: int
  course_id :: int
  chapter_order :: real
  time_spent :: "real option"
  score :: "real option"
  completion_status :: "real option"

text \<open>
  The pandas reductions used below skip NaN and are NaN on a series with no value:
  \<open>mean\<close>, \<open>median\<close> and \<open>quantile\<close> (linear interpolation at position \<open>(n - 1) * q\<close> of the
  sorted values).
\<close>

definition dropna :: "real option list \<Rightarrow> real list" where
  "dropna series = List.map_filter id series"

definition series_sum :: "real option list \<Rightarrow> real" where
  "series_sum series = sum_list (dropna series)"

definition series_mean :: "real option list \<Rightarrow> real option" where
  "series_mean series =
     (let v = dropna series
      in if v = [] then None else Some (sum_list v / real (length v)))"

definition series_quantile :: "real \<Rightarrow> real option list \<Rightarrow> real option" where
  "series_quantile q series =
     (let v = sort (dropna series); n = length v
      in if n = 0 then None
         else let h = real (n - 1) * q; lo = nat \<lfloor>h\<rfloor>; hi = min (lo + 1) (n - 1)
              in Some (v ! lo + (v ! hi - v ! lo) * (h - real lo)))"

definition series_median :: "real option list \<Rightarrow> real option" where
  "series_median series =
     (let v = sort (dropna series); n = length v
      in if n = 0 then None
         else if odd n then Some (v ! (n div 2))
         else Some ((v ! (n div 2 - 1) + v ! (n div 2)) / 2))"

definition fillna :: "real option \<Rightarrow> real option \<Rightarrow> real option" where
  "fillna x v = (case x of None \<Rightarrow> v | Some y \<Rightarrow> Some y)"

text \<open>
  \<open>Series.clip(lower, upper)\<close> with scalar bounds: a NaN bound is dropped; two bounds given
  in the wrong order are swapped (\<open>lower, upper = min(lower, upper), max(lower, upper)\<close>);
  NaN cells stay NaN.
\<close>

definition clip :: "real \<Rightarrow> real option \<Rightarrow> real option \<Rightarrow> real option" where
  "clip lower upper x =
     (case x of
        None \<Rightarrow> None
      | Some y \<Rightarrow> (case upper of
                    None \<Rightarrow> Some (max lower y)
                  | Some u \<Rightarrow> Some (min (max lower u) (max (min lower u) y))))"

text \<open>
  The preprocessor object: \<open>is_fitted\<close> is its only state that the two paths touch (the
  \<open>StandardScaler\<close> it also holds is never used).
\<close>

record data_preprocessor =
  is_fitted :: bool

text \<open>
  \<open>_handle_missing_values\<close>. Each \<open>df[c].fillna(v, inplace=True)\<close> is taken to update the
  column of the frame, as it does where pandas lets a chained in-place call write through.
  A fill value that is itself NaN (a column with no value) leaves the column as it is.
\<close>

definition handle_missing_values :: "chapter_event list \<Rightarrow> chapter_event list" where
  "handle_missing_values df =
     (let df1 = (if list_ex (\<lambda>r. time_spent r = None) df
                 then let m = series_median (map time_spent df)
                      in map (\<lambda>r. r\<lparr>time_spent := fillna (time_spent r) m\<rparr>) df
                 else df);
          df2 = (if list_ex (\<lambda>r. score r = None) df1
                 then let m = series_mean (map score df1)
                      in map (\<lambda>r. r\<lparr>score := fillna (score r) m\<rparr>) df1
                 else df1)
      in if list_ex (\<lambda>r. completion_status r = None) df2
         then map (\<lambda>r. r\<lparr>completion_status := fillna (completion_status r) (Some 0)\<rparr>) df2
         else df2)"

text \<open>
  \<open>_handle_outliers\<close>. Python's \<open>max(0, x)\<close> is 0 unless \<open>x > 0\<close>, so it is 0 when the
  quantiles are NaN (no value in the column); a NaN upper bound does not clip.
\<close>

definition handle_outliers :: "chapter_event list \<Rightarrow> chapter_event list" where
  "handle_outliers df =
     (let q1 = series_quantile (25 / 100) (map time_spent df);
          q3 = series_quantile (75 / 100) (map time_spent df);
          iqr = (case (q3, q1) of (Some b, Some a) \<Rightarrow> Some (b - a) | _ \<Rightarrow> None);
          lower_bound = (case (q1, iqr) of
                           (Some a, Some d) \<Rightarrow> (if a - 15 / 10 * d > 0 then a - 15 / 10 * d else 0)
                         | _ \<Rightarrow> 0);
          upper_bound = (case (q3, iqr) of
                           (Some b, Some d) \<Rightarrow> Some (b + 15 / 10 * d)
                         | _ \<Rightarrow> None)
      in map (\<lambda>r. r\<lparr>time_spent := clip lower_bound upper_bound (time_spent r)\<rparr>) df)"

text \<open>
  Both paths work on a copy of the frame, so the caller's frame is not changed;
  \<open>fit_transform\<close> also sets \<open>is_fitted\<close> and so returns the preprocessor with the frame.
\<close>

definition fit_transform :: "data_preprocessor \<Rightarrow> chapter_event list \<Rightarrow> chapter_event list \<times> data_preprocessor" where
  "fit_transform self df =
     (let df1 = handle_missing_values df;
          df2 = handle_outliers df1
      in (df2, self\<lparr>is_fitted := True\<rparr>))"

definition transform :: "data_preprocessor \<Rightarrow> chapter_event list \<Rightarrow> chapter_event list" where
  "transform self df =
     (let df1 = handle_missing_values df;
          df2 = handle_outliers df1
      in df2)"

section \<open>Student features (src/data/feature\_engineering.py)\<close>

text \<open>
  The columns of the student-feature frame that need no standard deviation; the four score
  aggregates and the two time aggregates besides the sum are left out. Field names carry
  the prefix \<open>sf_\<close> to keep them apart from the chapter-feature columns.
\<close>

record student_features =
  sf_student_id :: int
  sf_course_id :: int
  sf_total_time_spent :: real
  sf_chapters_attempted :: nat
  sf_chapters_completed :: real
  sf_completion_rate :: real
  sf_engagement_rate :: real
  sf_score_trend :: real
  sf_low_score_count :: nat

text \<open>
  \<open>_calculate_score_trend\<close> on one group. \<open>sort_values('chapter_order')\<close> is modelled as a
  stable sort: pandas' default sort does not fix the order of rows with the same
  \<open>chapter_order\<close>, so on a group with such ties the source may take other rows as the first
  or last three. The difference of two means is NaN when one of them is.
\<close>

definition calculate_score_trend :: "chapter_event list \<Rightarrow> real option" where
  "calculate_score_trend grp =
     (if length grp < 4 then Some 0
      else let sorted_group = sort_key chapter_order grp;
               first_avg = series_mean (map score (take 3 sorted_group));
               last_avg = series_mean (map score (drop (length sorted_group - 3) sorted_group))
           in case (last_avg, first_avg) of
                (Some l, Some f) \<Rightarrow> Some (l - f)
              | _ \<Rightarrow> None)"

text \<open>
  \<open>df.groupby('student_id').apply(_calculate_score_trend)\<close>: one entry per student, the
  group being all rows of that student.
\<close>

definition score_trend_by_student :: "chapter_event list \<Rightarrow> (int \<times> real option) list" where
  "score_trend_by_student df =
     map (\<lambda>s. (s, calculate_score_trend (filter (\<lambda>r. student_id r = s) df)))
         (sort (remdups (map student_id df)))"

text \<open>\<open>df[df['score'] < 50].groupby('student_id').size()\<close>.\<close>

definition low_score_count_by_student :: "chapter_event list \<Rightarrow> (int \<times> nat) list" where
  "low_score_count_by_student df =
     (let low = filter (\<lambda>r. case score r of Some x \<Rightarrow> x < 50 | None \<Rightarrow> False) df
      in map (\<lambda>s. (s, length (filter (\<lambda>r. student_id r = s) low)))
             (sort (remdups (map student_id low))))"

text \<open>
  \<open>engineer_student_features\<close>: one row per (student, course) group in key order
  (\<open>groupby(['student_id', 'course_id'])\<close>); the two per-student tables are joined on
  \<open>student_id\<close> alone (\<open>merge(..., on='student_id', how='left')\<close>), then NaN is filled
  with 0.
\<close>

definition engineer_student_features :: "chapter_event list \<Rightarrow> student_features list" where
  "engineer_student_features df =
     map (\<lambda>(s, c).
            let grp = filter (\<lambda>r. student_id r = s \<and> course_id r = c) df;
                total_time_spent = series_sum (map time_spent grp);
                chapters_attempted = length grp;
                chapters_completed = series_sum (map completion_status grp)
            in \<lparr>sf_student_id = s, sf_course_id = c,
                sf_total_time_spent = total_time_spent,
                sf_chapters_attempted = chapters_attempted,
                sf_chapters_completed = chapters_completed,
                sf_completion_rate = chapters_completed / real chapters_attempted,
                sf_engagement_rate = total_time_spent / (real chapters_attempted * 60),
                sf_score_trend =
                  (case map_of (score_trend_by_student df) s of
                     Some (Some t) \<Rightarrow> t
                   | _ \<Rightarrow> 0),
                sf_low_score_count =
                  (case map_of (low_score_count_by_student df) s of
                     Some n \<Rightarrow> n
                   | None \<Rightarrow> 0)\<rparr>)
         (sort (remdups (map (\<lambda>r. (student_id r, course_id r)) df)))"

text \<open>
  A student enrolled in two courses, with chapters 1 and 2 of each: scores 50 and 80 in
  both courses.
\<close>

definition two_course_events :: "chapter_event list" where
  "two_course_events =
     [\<lparr>student_id = 1, course_id = 1, chapter_order = 1, time_spent = Some 30,
       score = Some 50, completion_status = Some 1\<rparr>,
      \<lparr>student_id = 1, course_id = 1, chapter_order = 2, time_spent = Some 30,
       score = Some 80, completion_status = Some 1\<rparr>,
      \<lparr>student_id = 1, course_id = 2, chapter_order = 1, time_spent = Some 30,
       score = Some 50, completion_status = Some 1\<rparr>,
      \<lparr>student_id = 1, course_id = 2, chapter_order = 2, time_spent = Some 30,
       score = Some 80, completion_status = Some 1\<rparr>]"

text \<open>A batch with missing values and one outlying \<open>time_spent\<close>.\<close>

definition sample_events :: "chapter_event list" where
  "sample_events =
     [\<lparr>student_id = 1, course_id = 1, chapter_order = 1, time_spent = Some 10,
       score = Some 50, completion_status = Some 1\<rparr>,
      \<lparr>student_id = 1, course_id = 1, chapter_order = 2, time_spent = None,
       score = None, completion_status = None\<rparr>,
      \<lparr>student_id = 2, course_id = 1, chapter_order = 1, time_spent = Some 20,
       score = Some 70, completion_status = Some 0\<rparr>,
      \<lparr>student_id = 2, course_id = 1, chapter_order = 2, time_spent = Some 30,
       score = Some 90, completion_status = Some 1\<rparr>,
      \<lparr>student_id = 3, course_id = 1, chapter_order = 1, time_spent = Some 500,
       score = Some 90, completion_status = Some 1\<rparr>]"

text \<open>
  The two chapters of the worked example (an easy and a hard one) and a third chapter with
  the same features as the hard one, used to evaluate the analysis on a concrete batch.
\<close>

definition example_chapters :: "chapter_features list" where
  "example_chapters =
     [\<lparr>cf_course_id = 1, cf_chapter_order = 1, dropout_rate = 1 / 10, avg_time_spent = 30,
       avg_score = 85, completion_rate = 9 / 10, student_count = 100\<rparr>,
      \<lparr>cf_course_id = 1, cf_chapter_order = 2, dropout_rate = 5 / 10, avg_time_spent = 60,
       avg_score = 60, completion_rate = 5 / 10, student_count = 100\<rparr>,
      \<lparr>cf_course_id = 1, cf_chapter_order = 3, dropout_rate = 5 / 10, avg_time_spent = 60,
       avg_score = 60, completion_rate = 5 / 10, student_count = 80\<rparr>]"

section \<open>Theorems\<close>

text \<open>
  C2: for every risk score \<open>s\<close> in [0,1] the classifier returns High when \<open>s \<ge> 0.7\<close>,
  Medium when \<open>0.4 \<le> s < 0.7\<close> and Low when \<open>s < 0.4\<close>; a trained detector applies this to
  every score the estimator returns.
\<close>

theorem risk_level_thresholds:
  assumes "0 \<le> s" and "s \<le> 1"
  shows "(s \<ge> 7 / 10 \<longrightarrow> risk_level_of s = High)
       \<and> (4 / 10 \<le> s \<and> s < 7 / 10 \<longrightarrow> risk_level_of s = Medium)
       \<and> (s < 4 / 10 \<longrightarrow> risk_level_of s = Low)
       \<and> (is_trained d \<longrightarrow> predict_risk_level d X = Inr (map risk_level_of (predict_proba d X)))"
  by (simp add: risk_level_of_def HIGH_RISK_THRESHOLD_def MEDIUM_RISK_THRESHOLD_def
      predict_risk_level_def predict_risk_score_def)

theorem risk_level_thresholds_witness:
  "risk_level_of (7 / 10) = High \<and> risk_level_of (6999 / 10000) = Medium
   \<and> risk_level_of (4 / 10) = Medium \<and> risk_level_of (39 / 100) = Low
   \<and> predict_risk_level \<lparr>is_trained = True, predict_proba = map (\<lambda>x. x / 10)\<rparr> [7, 5 :: real]
       = Inr [High, Medium]"
proof -
  let ?d = "\<lparr>is_trained = True, predict_proba = map (\<lambda>x::real. x / 10)\<rparr>"
  let ?X = "[7, 5 :: real]"
  show ?thesis
    using risk_level_thresholds [of "7 / 10" ?d ?X] risk_level_thresholds [of "6999 / 10000" ?d ?X]
      risk_level_thresholds [of "4 / 10" ?d ?X] risk_level_thresholds [of "39 / 100" ?d ?X]
      risk_level_thresholds [of "1 / 2" ?d ?X]
    by simp
qed

subsection \<open>Chapter difficulty\<close>

lemma normalize_length: "length (normalize_series xs) = length xs"
  by (simp add: normalize_series_def Let_def)

lemma normalize_range:
  assumes "v \<in> set (normalize_series xs)"
  shows "0 \<le> v \<and> v \<le> 1"
proof (cases "xs = [] \<or> Max (set xs) = Min (set xs)")
  case True
  with assms show ?thesis by (auto simp: normalize_series_def Let_def split: if_splits)
next
  case False
  then have ne: "xs \<noteq> []" and neq: "Max (set xs) \<noteq> Min (set xs)" by auto
  from assms False obtain x where x: "x \<in> set xs"
    and v: "v = (x - Min (set xs)) / (Max (set xs) - Min (set xs))"
    by (auto simp: normalize_series_def Let_def)
  have lo: "Min (set xs) \<le> x" using x by simp
  have hi: "x \<le> Max (set xs)" using x by simp
  have "Min (set xs) \<le> Max (set xs)" using lo hi by linarith
  with neq have pos: "0 < Max (set xs) - Min (set xs)" by linarith
  show ?thesis unfolding v using lo hi pos by (simp add: divide_le_eq)
qed

lemma normalize_nth_range:
  "i < length xs \<Longrightarrow> 0 \<le> normalize_series xs ! i \<and> normalize_series xs ! i \<le> 1"
  using normalize_range [of "normalize_series xs ! i" xs] by (simp add: normalize_length)

lemma difficulty_scores_length: "length (difficulty_scores w df) = length df"
  by (simp add: difficulty_scores_def Let_def)

lemma difficulty_scores_nth:
  "i < length df \<Longrightarrow>
   difficulty_scores w df ! i =
     (normalize_series (map dropout_rate df) ! i * w_dropout_rate w +
      normalize_series (map avg_time_spent df) ! i * w_avg_time w +
      (1 - normalize_series (map avg_score df) ! i) * w_avg_score w +
      (1 - normalize_series (map completion_rate df) ! i) * w_completion_rate w) * 100"
  by (simp add: difficulty_scores_def Let_def normalize_length)

lemma difficulty_scores_range:
  assumes "s \<in> set (difficulty_scores DIFFICULTY_WEIGHTS df)"
  shows "0 \<le> s \<and> s \<le> 100"
proof -
  from assms obtain i where i: "i < length df"
    and si: "s = difficulty_scores DIFFICULTY_WEIGHTS df ! i"
    by (auto simp: in_set_conv_nth difficulty_scores_length)
  define a where "a = normalize_series (map dropout_rate df) ! i"
  define b where "b = normalize_series (map avg_time_spent df) ! i"
  define c where "c = normalize_series (map avg_score df) ! i"
  define d where "d = normalize_series (map completion_rate df) ! i"
  have a: "0 \<le> a \<and> a \<le> 1"
    unfolding a_def using i by (intro normalize_nth_range) simp
  have b: "0 \<le> b \<and> b \<le> 1"
    unfolding b_def using i by (intro normalize_nth_range) simp
  have c: "0 \<le> c \<and> c \<le> 1"
    unfolding c_def using i by (intro normalize_nth_range) simp
  have d: "0 \<le> d \<and> d \<le> 1"
    unfolding d_def using i by (intro normalize_nth_range) simp
  have "s = (a * (35 / 100) + b * (25 / 100) + (1 - c) * (30 / 100) + (1 - d) * (10 / 100)) * 100"
    unfolding si a_def b_def c_def d_def
    by (simp only: difficulty_scores_nth [OF i] DIFFICULTY_WEIGHTS_def difficulty_weights.simps)
  then have "s = 35 * a + 25 * b + 30 * (1 - c) + 10 * (1 - d)"
    by (simp add: algebra_simps diff_divide_distrib)
  then show ?thesis using a b c d by auto
qed

lemma difficulty_score_assess_row [simp]: "difficulty_score (assess_row scores cf s) = s"
  by (simp add: assess_row_def chapter_features.defs difficulty_assessment.defs)

lemma difficulty_rank_assess_row [simp]:
  "difficulty_rank (assess_row scores cf s) = dense_rank_desc scores s"
  by (simp add: assess_row_def chapter_features.defs difficulty_assessment.defs)

lemma difficulty_level_assess_row [simp]:
  "difficulty_level (assess_row scores cf s) = difficulty_level_of s"
  by (simp add: assess_row_def chapter_features.defs difficulty_assessment.defs)

lemma analyze_rows:
  assumes "r \<in> set (analyze_difficulty_with w df)"
  shows "\<exists>cf s. cf \<in> set df \<and> s \<in> set (difficulty_scores w df)
           \<and> r = assess_row (difficulty_scores w df) cf s"
  using assms by (auto simp: analyze_difficulty_with_def Let_def dest: set_zip_leftD set_zip_rightD)

lemma analyze_length: "length (analyze_difficulty_with w df) = length df"
  by (simp add: analyze_difficulty_with_def Let_def difficulty_scores_length)

lemma analyze_scores:
  "set (map difficulty_score (analyze_difficulty_with w df)) = set (difficulty_scores w df)"
proof -
  have "map difficulty_score (map (\<lambda>(cf, s). assess_row (difficulty_scores w df) cf s)
          (zip df (difficulty_scores w df))) = map snd (zip df (difficulty_scores w df))"
    by (simp add: case_prod_unfold)
  also have "\<dots> = difficulty_scores w df"
    by (simp add: difficulty_scores_length)
  finally show ?thesis
    by (simp add: analyze_difficulty_with_def Let_def del: map_map) (metis set_map)
qed

lemma dense_rank_card:
  "dense_rank_desc xs x = Suc (card {v \<in> set xs. x < v})"
proof -
  have "distinct (filter (\<lambda>v. x < v) (remdups xs))" by simp
  then have "length (filter (\<lambda>v. x < v) (remdups xs)) = card (set (filter (\<lambda>v. x < v) (remdups xs)))"
    by (simp only: distinct_card)
  also have "set (filter (\<lambda>v. x < v) (remdups xs)) = {v \<in> set xs. x < v}" by auto
  finally show ?thesis by (simp add: dense_rank_desc_def)
qed

lemma dense_rank_top:
  assumes "\<forall>v \<in> set xs. v \<le> x"
  shows "dense_rank_desc xs x = 1"
proof -
  have "{v \<in> set xs. x < v} = {}" using assms by auto
  then show ?thesis by (simp add: dense_rank_card)
qed

lemma dense_rank_next:
  assumes a: "a \<in> set xs" and lt: "b < a"
    and gap: "\<forall>v \<in> set xs. \<not> (b < v \<and> v < a)"
  shows "dense_rank_desc xs b = dense_rank_desc xs a + 1"
proof -
  have eq: "{v \<in> set xs. b < v} = insert a {v \<in> set xs. a < v}"
    using a lt gap by force
  have "card (insert a {v \<in> set xs. a < v}) = Suc (card {v \<in> set xs. a < v})"
    by (rule card_insert_disjoint) simp_all
  then have "card {v \<in> set xs. b < v} = Suc (card {v \<in> set xs. a < v})"
    by (simp only: eq)
  then show ?thesis by (simp add: dense_rank_card)
qed

lemma analyze_row_rank:
  assumes "r \<in> set (analyze_difficulty_with w df)"
  shows "difficulty_rank r = dense_rank_desc (map difficulty_score (analyze_difficulty_with w df)) (difficulty_score r)"
proof -
  from analyze_rows [OF assms] obtain cf s where
    r: "r = assess_row (difficulty_scores w df) cf s" by blast
  have "dense_rank_desc (map difficulty_score (analyze_difficulty_with w df)) s
        = dense_rank_desc (difficulty_scores w df) s"
    using analyze_scores [of w df] by (simp only: dense_rank_card)
  then show ?thesis by (simp add: r)
qed

lemma example_scores:
  "difficulty_scores DIFFICULTY_WEIGHTS example_chapters = [0, 100, 100]"
  by (simp add: difficulty_scores_def example_chapters_def normalize_series_def Let_def
      DIFFICULTY_WEIGHTS_def upt_rec)

lemma example_analysis:
  "analyze_difficulty example_chapters =
     [\<lparr>cf_course_id = 1, cf_chapter_order = 2, dropout_rate = 5 / 10, avg_time_spent = 60,
       avg_score = 60, completion_rate = 5 / 10, student_count = 100,
       difficulty_score = 100, difficulty_level = Some Hard, difficulty_rank = 1\<rparr>,
      \<lparr>cf_course_id = 1, cf_chapter_order = 3, dropout_rate = 5 / 10, avg_time_spent = 60,
       avg_score = 60, completion_rate = 5 / 10, student_count = 80,
       difficulty_score = 100, difficulty_level = Some Hard, difficulty_rank = 1\<rparr>,
      \<lparr>cf_course_id = 1, cf_chapter_order = 1, dropout_rate = 1 / 10, avg_time_spent = 30,
       avg_score = 85, completion_rate = 9 / 10, student_count = 100,
       difficulty_score = 0, difficulty_level = Some Easy, difficulty_rank = 2\<rparr>]"
  unfolding analyze_difficulty_def analyze_difficulty_with_def Let_def example_scores
  by (simp add: example_chapters_def assess_row_def chapter_features.defs
      difficulty_assessment.defs dense_rank_desc_def difficulty_level_of_def cut_def
      searchsorted_left_def)

text \<open>
  C3: every \<open>difficulty_score\<close> that \<open>analyze_difficulty\<close> produces lies in [0, 100], and
  the analysis returns one row per input row (so a non-empty batch has scores to bound).
\<close>

theorem difficulty_score_bounds:
  "length (analyze_difficulty df) = length df
   \<and> (\<forall>r \<in> set (analyze_difficulty df). 0 \<le> difficulty_score r \<and> difficulty_score r \<le> 100)"
proof (intro conjI ballI)
  show "length (analyze_difficulty df) = length df"
    by (simp add: analyze_difficulty_def analyze_length)
next
  fix r assume "r \<in> set (analyze_difficulty df)"
  then have "difficulty_score r \<in> set (difficulty_scores DIFFICULTY_WEIGHTS df)"
    using analyze_scores [of DIFFICULTY_WEIGHTS df] by (auto simp: analyze_difficulty_def)
  then have "0 \<le> difficulty_score r \<and> difficulty_score r \<le> 100"
    by (rule difficulty_scores_range)
  then show "0 \<le> difficulty_score r" and "difficulty_score r \<le> 100" by simp_all
qed

theorem difficulty_score_bounds_witness:
  "length (analyze_difficulty example_chapters) = 3
   \<and> map difficulty_score (analyze_difficulty example_chapters) = [100, 100, 0]
   \<and> hd (analyze_difficulty example_chapters) \<in> set (analyze_difficulty example_chapters)
   \<and> 0 \<le> difficulty_score (hd (analyze_difficulty example_chapters))
   \<and> difficulty_score (hd (analyze_difficulty example_chapters)) \<le> 100"
proof -
  have len: "length example_chapters = 3" by (simp add: example_chapters_def)
  have ne: "analyze_difficulty example_chapters \<noteq> []"
    using difficulty_score_bounds [of example_chapters] len by auto
  then have "hd (analyze_difficulty example_chapters) \<in> set (analyze_difficulty example_chapters)"
    by simp
  then show ?thesis
    using difficulty_score_bounds [of example_chapters] len by (simp add: example_analysis)
qed

text \<open>
  C4: when a signal has equal minimum and maximum over the batch (in particular when every
  entry has the same value) \<open>_normalize\<close> returns 0 for every entry.
\<close>

theorem normalize_degenerate:
  "(Max (set xs) = Min (set xs) \<longrightarrow> normalize_series xs = replicate (length xs) 0)
   \<and> ((\<forall>x \<in> set xs. x = c) \<longrightarrow> normalize_series xs = replicate (length xs) 0)"
proof (intro conjI impI)
  assume "Max (set xs) = Min (set xs)"
  then show "normalize_series xs = replicate (length xs) 0"
    by (simp add: normalize_series_def Let_def)
next
  assume c: "\<forall>x \<in> set xs. x = c"
  show "normalize_series xs = replicate (length xs) 0"
  proof (cases "xs = []")
    case True
    then show ?thesis by (simp add: normalize_series_def)
  next
    case False
    then have "set xs = {c}" using c by (cases xs) auto
    then have "Max (set xs) = Min (set xs)" by simp
    then show ?thesis by (simp add: normalize_series_def Let_def)
  qed
qed

theorem normalize_degenerate_witness:
  "normalize_series [1 / 2, 1 / 2, 1 / 2] = [0, 0, 0]
   \<and> normalize_series (map dropout_rate (tl example_chapters)) = [0, 0]"
proof -
  have c1: "\<forall>x \<in> set [1 / 2, 1 / 2, 1 / 2 :: real]. x = 1 / 2"
    by simp
  have c2: "\<forall>x \<in> set (map dropout_rate (tl example_chapters)). x = 1 / 2"
    by (simp add: example_chapters_def)
  have n1: "normalize_series [1 / 2, 1 / 2, 1 / 2] = replicate (length [1 / 2, 1 / 2, 1 / 2 :: real]) 0"
    using normalize_degenerate [of "[1 / 2, 1 / 2, 1 / 2]" "1 / 2"] c1 by blast
  have n2: "normalize_series (map dropout_rate (tl example_chapters))
              = replicate (length (map dropout_rate (tl example_chapters))) 0"
    using normalize_degenerate [of "map dropout_rate (tl example_chapters)" "1 / 2"] c2 by blast
  have l2: "length (map dropout_rate (tl example_chapters)) = Suc (Suc 0)"
    by (simp add: example_chapters_def)
  show ?thesis
    unfolding n1 n2 l2 by simp
qed

lemma analyze_row_level:
  assumes "r \<in> set (analyze_difficulty df)"
  shows "difficulty_level r = difficulty_level_of (difficulty_score r)
         \<and> 0 \<le> difficulty_score r \<and> difficulty_score r \<le> 100"
proof -
  from assms have "r \<in> set (analyze_difficulty_with DIFFICULTY_WEIGHTS df)"
    by (simp add: analyze_difficulty_def)
  from analyze_rows [OF this] obtain cf s where
    s: "s \<in> set (difficulty_scores DIFFICULTY_WEIGHTS df)"
    and r: "r = assess_row (difficulty_scores DIFFICULTY_WEIGHTS df) cf s" by blast
  from difficulty_scores_range [OF s] show ?thesis by (simp add: r)
qed

lemma difficulty_level_of_bins:
  assumes "0 \<le> s" "s \<le> 100"
  shows "difficulty_level_of s =
           Some (if s \<le> 33 then Easy else if s \<le> 66 then Medium_difficulty else Hard)"
  using assms
  by (auto simp: difficulty_level_of_def cut_def searchsorted_left_def Let_def)

text \<open>
  C5: a \<open>difficulty_score\<close> in [0, 100] is labelled Easy when it is at most 33 (0 included),
  Medium when it is above 33 and at most 66, and Hard when it is above 66; and the
  \<open>difficulty_level\<close> of every row that \<open>analyze_difficulty\<close> returns is the label of that
  row's own \<open>difficulty_score\<close> by these bins.
\<close>

theorem difficulty_level_bins:
  "(0 \<le> s \<and> s \<le> 100 \<longrightarrow>
      difficulty_level_of s =
        Some (if s \<le> 33 then Easy else if s \<le> 66 then Medium_difficulty else Hard))
   \<and> (r \<in> set (analyze_difficulty df) \<longrightarrow>
      difficulty_level r =
        Some (if difficulty_score r \<le> 33 then Easy
              else if difficulty_score r \<le> 66 then Medium_difficulty else Hard))"
proof (intro conjI impI)
  assume "0 \<le> s \<and> s \<le> 100"
  then show "difficulty_level_of s =
        Some (if s \<le> 33 then Easy else if s \<le> 66 then Medium_difficulty else Hard)"
    by (simp only: difficulty_level_of_bins)
next
  assume "r \<in> set (analyze_difficulty df)"
  from analyze_row_level [OF this]
  show "difficulty_level r =
        Some (if difficulty_score r \<le> 33 then Easy
              else if difficulty_score r \<le> 66 then Medium_difficulty else Hard)"
    by (simp only: difficulty_level_of_bins)
qed

theorem difficulty_level_bins_witness:
  "difficulty_level_of 0 = Some Easy \<and> difficulty_level_of 33 = Some Easy
   \<and> difficulty_level_of (331 / 10) = Some Medium_difficulty
   \<and> difficulty_level_of 66 = Some Medium_difficulty
   \<and> difficulty_level_of (661 / 10) = Some Hard \<and> difficulty_level_of 100 = Some Hard
   \<and> difficulty_score (analyze_difficulty example_chapters ! 0) = 100
   \<and> difficulty_level (analyze_difficulty example_chapters ! 0) = Some Hard
   \<and> difficulty_score (analyze_difficulty example_chapters ! 2) = 0
   \<and> difficulty_level (analyze_difficulty example_chapters ! 2) = Some Easy"
proof -
  let ?out = "analyze_difficulty example_chapters"
  have m0: "?out ! 0 \<in> set ?out" and m2: "?out ! 2 \<in> set ?out"
    by (simp_all add: example_analysis)
  have s0: "difficulty_score (?out ! 0) = 100" and s2: "difficulty_score (?out ! 2) = 0"
    by (simp_all add: example_analysis)
  have l0: "difficulty_level (?out ! 0) = Some Hard"
    using difficulty_level_bins [of 0 "?out ! 0" example_chapters] m0 s0 by simp
  have l2: "difficulty_level (?out ! 2) = Some Easy"
    using difficulty_level_bins [of 0 "?out ! 2" example_chapters] m2 s2 by simp
  have b: "difficulty_level_of 0 = Some Easy \<and> difficulty_level_of 33 = Some Easy
   \<and> difficulty_level_of (331 / 10) = Some Medium_difficulty
   \<and> difficulty_level_of 66 = Some Medium_difficulty
   \<and> difficulty_level_of (661 / 10) = Some Hard \<and> difficulty_level_of 100 = Some Hard"
    using difficulty_level_bins [of 0 r df] difficulty_level_bins [of 33 r df]
      difficulty_level_bins [of "331 / 10" r df] difficulty_level_bins [of 66 r df]
      difficulty_level_bins [of "661 / 10" r df] difficulty_level_bins [of 100 r df]
    by simp
  from b s0 l0 s2 l2 show ?thesis by simp
qed

text \<open>
  C6: \<open>difficulty_rank\<close> is a dense ranking by descending score: a row whose score is the
  highest of the batch has rank 1, rows with equal scores have equal ranks, and a row whose
  score is the next lower distinct score has the rank of the higher one plus one.
\<close>

theorem difficulty_rank_dense:
  assumes r: "r \<in> set (analyze_difficulty df)" and r': "r' \<in> set (analyze_difficulty df)"
  shows "((\<forall>q \<in> set (analyze_difficulty df). difficulty_score q \<le> difficulty_score r)
            \<longrightarrow> difficulty_rank r = 1)
       \<and> (difficulty_score r = difficulty_score r' \<longrightarrow> difficulty_rank r = difficulty_rank r')
       \<and> (difficulty_score r' < difficulty_score r
            \<and> (\<forall>q \<in> set (analyze_difficulty df).
                  \<not> (difficulty_score r' < difficulty_score q \<and> difficulty_score q < difficulty_score r))
            \<longrightarrow> difficulty_rank r' = difficulty_rank r + 1)"
proof -
  let ?out = "analyze_difficulty_with DIFFICULTY_WEIGHTS df"
  let ?ss = "map difficulty_score ?out"
  from r r' have m: "r \<in> set ?out" "r' \<in> set ?out" by (simp_all add: analyze_difficulty_def)
  have rk: "difficulty_rank r = dense_rank_desc ?ss (difficulty_score r)"
    "difficulty_rank r' = dense_rank_desc ?ss (difficulty_score r')"
    using m by (simp_all only: analyze_row_rank)
  have top: "(\<forall>q \<in> set ?out. difficulty_score q \<le> difficulty_score r) \<longrightarrow> difficulty_rank r = 1"
  proof
    assume "\<forall>q \<in> set ?out. difficulty_score q \<le> difficulty_score r"
    then have "\<forall>v \<in> set ?ss. v \<le> difficulty_score r" by auto
    then show "difficulty_rank r = 1" unfolding rk by (rule dense_rank_top)
  qed
  have tie: "difficulty_score r = difficulty_score r' \<longrightarrow> difficulty_rank r = difficulty_rank r'"
    unfolding rk by simp
  have nxt: "difficulty_score r' < difficulty_score r
            \<and> (\<forall>q \<in> set ?out.
                  \<not> (difficulty_score r' < difficulty_score q \<and> difficulty_score q < difficulty_score r))
            \<longrightarrow> difficulty_rank r' = difficulty_rank r + 1"
  proof
    assume h: "difficulty_score r' < difficulty_score r
            \<and> (\<forall>q \<in> set ?out.
                  \<not> (difficulty_score r' < difficulty_score q \<and> difficulty_score q < difficulty_score r))"
    have "difficulty_score r \<in> set ?ss" using m by simp
    moreover have "\<forall>v \<in> set ?ss. \<not> (difficulty_score r' < v \<and> v < difficulty_score r)"
      using h by auto
    ultimately show "difficulty_rank r' = difficulty_rank r + 1"
      unfolding rk using h by (intro dense_rank_next) simp_all
  qed
  show ?thesis using top tie nxt by (simp only: analyze_difficulty_def) 
qed

theorem difficulty_rank_dense_witness:
  "difficulty_rank (analyze_difficulty example_chapters ! 0) = 1
   \<and> difficulty_rank (analyze_difficulty example_chapters ! 1) = 1
   \<and> difficulty_rank (analyze_difficulty example_chapters ! 2) = 2"
proof -
  let ?out = "analyze_difficulty example_chapters"
  have m0: "?out ! 0 \<in> set ?out" and m1: "?out ! 1 \<in> set ?out" and m2: "?out ! 2 \<in> set ?out"
    by (simp_all add: example_analysis)
  have top: "\<forall>q \<in> set ?out. difficulty_score q \<le> difficulty_score (?out ! 0)"
    by (simp add: example_analysis)
  have tie: "difficulty_score (?out ! 0) = difficulty_score (?out ! 1)"
    by (simp add: example_analysis)
  have nxt: "difficulty_score (?out ! 2) < difficulty_score (?out ! 0)
     \<and> (\<forall>q \<in> set ?out. \<not> (difficulty_score (?out ! 2) < difficulty_score q
                            \<and> difficulty_score q < difficulty_score (?out ! 0)))"
    by (simp add: example_analysis)
  from difficulty_rank_dense [OF m0 m1] top tie
  have r0: "difficulty_rank (?out ! 0) = 1" and r1: "difficulty_rank (?out ! 1) = 1"
    by simp_all
  from difficulty_rank_dense [OF m0 m2] nxt r0
  have "difficulty_rank (?out ! 2) = 2" by simp
  with r0 r1 show ?thesis by simp
qed



subsection \<open>Record validation\<close>

lemma to_numeric_not_Str: "\<forall>s. x \<noteq> Str s \<Longrightarrow> to_numeric parse x = x"
  by (cases x) (simp_all add: to_numeric_def)


lemma map_of_coerce_column:
  "map_of (coerce_column parse c df) = (map_of df)(c \<mapsto> map (to_numeric parse) (get_col df c))"
  by (simp add: coerce_column_def set_col_def update_conv')

lemma get_col_coerce_column:
  "get_col (coerce_column parse c df) c' =
     (if c' = c then map (to_numeric parse) (get_col df c) else get_col df c')"
  by (simp add: get_col_def map_of_coerce_column)

lemma keys_coerce_column:
  "c \<in> set (map fst df) \<Longrightarrow> map fst (coerce_column parse c df) = map fst df"
  by (simp add: coerce_column_def set_col_def update_keys)

lemma missing_columns_Nil:
  "missing_columns df = [] \<longleftrightarrow> set REQUIRED_COLUMNS \<subseteq> set (map fst df)"
  by (auto simp: missing_columns_def filter_empty_conv)

lemma required_present:
  assumes "missing_columns df = []"
  shows "''time_spent'' \<in> set (map fst df)" "''score'' \<in> set (map fst df)"
    "''chapter_order'' \<in> set (map fst df)" "''completion_status'' \<in> set (map fst df)"
  using assms unfolding missing_columns_Nil by (simp_all add: REQUIRED_COLUMNS_def)

lemma keys_coerce_numeric_columns:
  assumes "missing_columns df = []"
  shows "map fst (coerce_numeric_columns parse df) = map fst df"
  using required_present [OF assms]
  by (simp add: coerce_numeric_columns_def keys_coerce_column)


lemma map_of_coerce_numeric_columns_other:
  "c \<notin> {''time_spent'', ''score'', ''chapter_order'', ''completion_status''} \<Longrightarrow>
   map_of (coerce_numeric_columns parse df) c = map_of df c"
  by (simp add: coerce_numeric_columns_def map_of_coerce_column)

lemma map_of_coerce_numeric_columns_same:
  "c \<in> {''time_spent'', ''score'', ''chapter_order'', ''completion_status''} \<Longrightarrow>
   map_of (coerce_numeric_columns parse df) c = Some (map (to_numeric parse) (get_col df c))"
  by (auto simp add: coerce_numeric_columns_def map_of_coerce_column get_col_coerce_column)

lemma coerce_column_unchanged:
  assumes "c \<in> set (map fst df)" and "\<forall>x \<in> set (get_col df c). \<forall>s. x \<noteq> Str s"
  shows "coerce_column parse c df = df"
proof -
  from assms(1) obtain col where col: "map_of df c = Some col"
    by (metis map_of_eq_None_iff not_Some_eq set_map)
  then have g: "get_col df c = col" by (simp add: get_col_def)
  have "map (to_numeric parse) col = col"
    using assms(2) unfolding g by (simp add: map_idI to_numeric_not_Str)
  then show ?thesis
    by (simp add: coerce_column_def set_col_def g update_triv [OF col])
qed

lemma snd_validate_data:
  "snd (validate_data parse df) =
     (if df_empty df \<or> missing_columns df \<noteq> [] then df else coerce_numeric_columns parse df)"
  by (simp add: validate_data_def Let_def)

lemma coerce_numeric_columns_unchanged:
  assumes m: "missing_columns df = []"
    and "\<forall>x \<in> set (get_col df ''time_spent''). \<forall>s. x \<noteq> Str s"
    and "\<forall>x \<in> set (get_col df ''score''). \<forall>s. x \<noteq> Str s"
    and "\<forall>x \<in> set (get_col df ''chapter_order''). \<forall>s. x \<noteq> Str s"
    and "\<forall>x \<in> set (get_col df ''completion_status''). \<forall>s. x \<noteq> Str s"
  shows "coerce_numeric_columns parse df = df"
  using assms required_present [OF m]
  by (simp add: coerce_numeric_columns_def coerce_column_unchanged)

lemma parse_abc: "parse_unsigned ''abc'' = None"
  by (simp add: parse_unsigned_def digit_of_def)

lemma parse_30: "parse_unsigned ''30'' = Some 30"
  by (simp add: parse_unsigned_def digit_of_def)

lemma validate_text_time:
  "validate_data parse_unsigned (one_row (Num 1) (Num 1) (Num 1) (Str ''30'') (Num 85) (Num 1))
     = (Inr (), one_row (Num 1) (Num 1) (Num 1) (Num 30) (Num 85) (Num 1))"
  by (simp add: validate_data_def one_row_def df_empty_def n_rows_def missing_columns_def
      REQUIRED_COLUMNS_def coerce_numeric_columns_def coerce_column_def set_col_def get_col_def
      to_numeric_def parse_30 isna_def cell_lt_def cell_gt_def cell_isin_def Let_def)

lemma validate_bad_time:
  "validate_data parse_unsigned (one_row (Num 1) (Num 1) (Num 1) (Str ''abc'') (Num 85) (Num 1))
     = (Inl DataTypeValidationFailed, one_row (Num 1) (Num 1) (Num 1) NaN (Num 85) (Num 1))"
  by (simp add: validate_data_def one_row_def df_empty_def n_rows_def missing_columns_def
      REQUIRED_COLUMNS_def coerce_numeric_columns_def coerce_column_def set_col_def get_col_def
      to_numeric_def parse_abc isna_def cell_lt_def cell_gt_def cell_isin_def Let_def)


lemma validate_bad_completion:
  "validate_data parse_unsigned (one_row (Num 1) (Num 1) (Num 1) (Num 30) (Num 85) (Str ''abc''))
     = (Inl CompletionStatusNotBinary, one_row (Num 1) (Num 1) (Num 1) (Num 30) (Num 85) NaN)"
  by (simp add: validate_data_def one_row_def df_empty_def n_rows_def missing_columns_def
      REQUIRED_COLUMNS_def coerce_numeric_columns_def coerce_column_def set_col_def get_col_def
      to_numeric_def parse_abc isna_def cell_lt_def cell_gt_def cell_isin_def Let_def)

lemma validate_data_keeps_keys:
  "map fst (snd (validate_data parse df)) = map fst df"
  by (simp add: snd_validate_data keys_coerce_numeric_columns)

lemma validate_data_keeps_other_columns:
  "c \<notin> {''time_spent'', ''score'', ''chapter_order'', ''completion_status''} \<Longrightarrow>
   map_of (snd (validate_data parse df)) c = map_of df c"
proof (cases "df_empty df \<or> missing_columns df \<noteq> []")
  case True
  then show ?thesis by (simp add: snd_validate_data)
next
  case False
  assume "c \<notin> {''time_spent'', ''score'', ''chapter_order'', ''completion_status''}"
  then have "map_of (coerce_numeric_columns parse df) c = map_of df c"
    by (rule map_of_coerce_numeric_columns_other)
  with False show ?thesis by (simp add: snd_validate_data)
qed

lemma validate_data_early_exit:
  "df_empty df \<or> missing_columns df \<noteq> [] \<Longrightarrow> snd (validate_data parse df) = df"
  by (simp add: snd_validate_data)

lemma validate_data_coerces:
  assumes "\<not> df_empty df" and "missing_columns df = []"
    and "c \<in> {''time_spent'', ''score'', ''chapter_order'', ''completion_status''}"
  shows "map_of (snd (validate_data parse df)) c = Some (map (to_numeric parse) (get_col df c))"
    and "get_col (snd (validate_data parse df)) c = map (to_numeric parse) (get_col df c)"
proof -
  have out: "snd (validate_data parse df) = coerce_numeric_columns parse df"
    using assms(1,2) by (simp add: snd_validate_data)
  show "map_of (snd (validate_data parse df)) c = Some (map (to_numeric parse) (get_col df c))"
    unfolding out using assms(3) by (rule map_of_coerce_numeric_columns_same)
  then show "get_col (snd (validate_data parse df)) c = map (to_numeric parse) (get_col df c)"
    by (simp add: get_col_def)
qed

lemma validate_data_numeric_unchanged:
  assumes "\<forall>k \<in> {''time_spent'', ''score'', ''chapter_order'', ''completion_status''}.
          \<forall>x \<in> set (get_col df k). \<forall>s. x \<noteq> Str s"
  shows "snd (validate_data parse df) = df"
proof (cases "df_empty df \<or> missing_columns df \<noteq> []")
  case True
  then show ?thesis by (rule validate_data_early_exit)
next
  case False
  then have m: "missing_columns df = []" by simp
  have "coerce_numeric_columns parse df = df"
    using assms by (intro coerce_numeric_columns_unchanged [OF m]) simp_all
  with False show ?thesis by (simp add: snd_validate_data)
qed

text \<open>
  C7 (as the code has it): \<open>validate_data\<close> is not free of effects on its argument. A frame
  that is empty or lacks a required column is left as it was. Otherwise the four columns
  \<open>time_spent\<close>, \<open>score\<close>, \<open>chapter_order\<close> and \<open>completion_status\<close> are replaced by their
  numeric coercion, whether validation then succeeds or fails. In every case the column
  names and their order and every other column are kept, and a frame with no string cell
  in the four columns is left exactly as it was.
\<close>

theorem validate_data_frame_effect:
  "map fst (snd (validate_data parse df)) = map fst df
   \<and> (c \<notin> {''time_spent'', ''score'', ''chapter_order'', ''completion_status''}
        \<longrightarrow> map_of (snd (validate_data parse df)) c = map_of df c)
   \<and> (df_empty df \<or> missing_columns df \<noteq> [] \<longrightarrow> snd (validate_data parse df) = df)
   \<and> (\<not> df_empty df \<and> missing_columns df = []
        \<and> c \<in> {''time_spent'', ''score'', ''chapter_order'', ''completion_status''}
        \<longrightarrow> map_of (snd (validate_data parse df)) c = Some (map (to_numeric parse) (get_col df c))
          \<and> get_col (snd (validate_data parse df)) c = map (to_numeric parse) (get_col df c))
   \<and> ((\<forall>k \<in> {''time_spent'', ''score'', ''chapter_order'', ''completion_status''}.
          \<forall>x \<in> set (get_col df k). \<forall>s. x \<noteq> Str s)
        \<longrightarrow> snd (validate_data parse df) = df)"
proof (intro conjI impI)
  show "map fst (snd (validate_data parse df)) = map fst df"
    by (rule validate_data_keeps_keys)
next
  assume "c \<notin> {''time_spent'', ''score'', ''chapter_order'', ''completion_status''}"
  then show "map_of (snd (validate_data parse df)) c = map_of df c"
    by (rule validate_data_keeps_other_columns)
next
  assume "df_empty df \<or> missing_columns df \<noteq> []"
  then show "snd (validate_data parse df) = df"
    by (rule validate_data_early_exit)
next
  assume h: "\<not> df_empty df \<and> missing_columns df = []
        \<and> c \<in> {''time_spent'', ''score'', ''chapter_order'', ''completion_status''}"
  from h have h1: "\<not> df_empty df" by (rule conjunct1)
  from h have h2: "missing_columns df = []" by (elim conjE)
  from h have h3: "c \<in> {''time_spent'', ''score'', ''chapter_order'', ''completion_status''}"
    by (elim conjE)
  show "map_of (snd (validate_data parse df)) c = Some (map (to_numeric parse) (get_col df c))"
    using h1 h2 h3 by (rule validate_data_coerces(1))
  show "get_col (snd (validate_data parse df)) c = map (to_numeric parse) (get_col df c)"
    using h1 h2 h3 by (rule validate_data_coerces(2))
next
  assume "\<forall>k \<in> {''time_spent'', ''score'', ''chapter_order'', ''completion_status''}.
          \<forall>x \<in> set (get_col df k). \<forall>s. x \<noteq> Str s"
  then show "snd (validate_data parse df) = df"
    by (rule validate_data_numeric_unchanged)
qed

theorem validate_data_frame_effect_witness:
  "snd (validate_data parse_unsigned (one_row (Num 1) (Num 1) (Num 1) (Num 30) (Num 150) (Num 1)))
     = one_row (Num 1) (Num 1) (Num 1) (Num 30) (Num 150) (Num 1)
   \<and> map_of (snd (validate_data parse_unsigned
        (one_row (Str ''abc'') (Num 1) (Num 1) (Str ''30'') (Num 85) (Num 1)))) ''student_id''
       = Some [Str ''abc'']
   \<and> get_col (snd (validate_data parse_unsigned
        (one_row (Str ''abc'') (Num 1) (Num 1) (Str ''30'') (Num 85) (Num 1)))) ''time_spent''
       = [Num 30]
   \<and> get_col (snd (validate_data parse_unsigned
        (one_row (Num 1) (Num 1) (Num 1) (Str ''abc'') (Num 85) (Num 1)))) ''time_spent''
       = [NaN]
   \<and> snd (validate_data parse_unsigned [(''student_id'', [Str ''7''])]) = [(''student_id'', [Str ''7''])]"
proof -
  let ?df = "one_row (Num 1) (Num 1) (Num 1) (Num 30) (Num 150) (Num 1)"
  let ?df2 = "one_row (Str ''abc'') (Num 1) (Num 1) (Str ''30'') (Num 85) (Num 1)"
  let ?df3 = "one_row (Num 1) (Num 1) (Num 1) (Str ''abc'') (Num 85) (Num 1)"
  let ?df4 = "[(''student_id'', [Str ''7''])] :: dataframe"
  note e1 = validate_data_frame_effect [of parse_unsigned ?df "''score''"]
  note e2 = validate_data_frame_effect [of parse_unsigned ?df2 "''student_id''"]
  note e3 = validate_data_frame_effect [of parse_unsigned ?df2 "''time_spent''"]
  note e4 = validate_data_frame_effect [of parse_unsigned ?df3 "''time_spent''"]
  note e5 = validate_data_frame_effect [of parse_unsigned ?df4 "''score''"]
  have h: "\<forall>k \<in> {''time_spent'', ''score'', ''chapter_order'', ''completion_status''}.
             \<forall>x \<in> set (get_col ?df k). \<forall>s. x \<noteq> Str s"
    by (simp add: one_row_def get_col_def)
  have a: "snd (validate_data parse_unsigned ?df) = ?df"
    by (rule e1 [THEN conjunct2, THEN conjunct2, THEN conjunct2, THEN conjunct2, THEN mp, OF h])
  have n: "''student_id'' \<notin> {''time_spent'', ''score'', ''chapter_order'', ''completion_status''}"
    by simp
  have "map_of (snd (validate_data parse_unsigned ?df2)) ''student_id'' = map_of ?df2 ''student_id''"
    by (rule e2 [THEN conjunct2, THEN conjunct1, THEN mp, OF n])
  then have b: "map_of (snd (validate_data parse_unsigned ?df2)) ''student_id'' = Some [Str ''abc'']"
    by (simp add: one_row_def)
  have p2: "\<not> df_empty ?df2 \<and> missing_columns ?df2 = []
        \<and> ''time_spent'' \<in> {''time_spent'', ''score'', ''chapter_order'', ''completion_status''}"
    by (simp add: one_row_def df_empty_def n_rows_def missing_columns_def REQUIRED_COLUMNS_def)
  have p3: "\<not> df_empty ?df3 \<and> missing_columns ?df3 = []
        \<and> ''time_spent'' \<in> {''time_spent'', ''score'', ''chapter_order'', ''completion_status''}"
    by (simp add: one_row_def df_empty_def n_rows_def missing_columns_def REQUIRED_COLUMNS_def)
  have "get_col (snd (validate_data parse_unsigned ?df2)) ''time_spent''
          = map (to_numeric parse_unsigned) (get_col ?df2 ''time_spent'')"
    by (rule e3 [THEN conjunct2, THEN conjunct2, THEN conjunct2, THEN conjunct1, THEN mp,
          OF p2, THEN conjunct2])
  then have c: "get_col (snd (validate_data parse_unsigned ?df2)) ''time_spent'' = [Num 30]"
    by (simp add: one_row_def get_col_def to_numeric_def parse_30)
  have "get_col (snd (validate_data parse_unsigned ?df3)) ''time_spent''
          = map (to_numeric parse_unsigned) (get_col ?df3 ''time_spent'')"
    by (rule e4 [THEN conjunct2, THEN conjunct2, THEN conjunct2, THEN conjunct1, THEN mp,
          OF p3, THEN conjunct2])
  then have d: "get_col (snd (validate_data parse_unsigned ?df3)) ''time_spent'' = [NaN]"
    by (simp add: one_row_def get_col_def to_numeric_def parse_abc)
  have "missing_columns ?df4 \<noteq> []"
    by (simp add: missing_columns_def REQUIRED_COLUMNS_def)
  then have m4: "df_empty ?df4 \<or> missing_columns ?df4 \<noteq> []" by (rule disjI2)
  have e: "snd (validate_data parse_unsigned ?df4) = ?df4"
    by (rule e5 [THEN conjunct2, THEN conjunct2, THEN conjunct1, THEN mp, OF m4])
  from a b c d e show ?thesis by (intro conjI)
qed

text \<open>
  The claim as written fails: a frame whose \<open>time_spent\<close> cell is the string "30" passes
  validation and comes back with the number 30 in that cell.
\<close>

theorem validate_data_mutates_input:
  "fst (validate_data parse_unsigned (one_row (Num 1) (Num 1) (Num 1) (Str ''30'') (Num 85) (Num 1)))
     = Inr ()
   \<and> snd (validate_data parse_unsigned (one_row (Num 1) (Num 1) (Num 1) (Str ''30'') (Num 85) (Num 1)))
     \<noteq> one_row (Num 1) (Num 1) (Num 1) (Str ''30'') (Num 85) (Num 1)"
  unfolding validate_text_time by (simp add: one_row_def)




subsection \<open>Preprocessing\<close>

lemma sample_missing:
  "map (\<lambda>r. (time_spent r, score r, completion_status r)) (handle_missing_values sample_events) =
     [(Some 10, Some 50, Some 1), (Some 25, Some 75, Some 0), (Some 20, Some 70, Some 0),
      (Some 30, Some 90, Some 1), (Some 500, Some 90, Some 1)]"
  by (simp add: handle_missing_values_def sample_events_def series_median_def series_mean_def
      dropna_def fillna_def Let_def)

lemma sample_transform:
  "map time_spent (transform \<lparr>is_fitted = False\<rparr> sample_events) =
     [Some 10, Some 25, Some 20, Some 30, Some 45]"
  by (simp add: transform_def handle_outliers_def handle_missing_values_def sample_events_def
      series_median_def series_mean_def series_quantile_def
      dropna_def fillna_def clip_def Let_def)

text \<open>
  C9: the fit path and the apply path return the same preprocessed records for the same
  input batch, whatever the state of the preprocessor: both are the outlier clamp applied
  to the imputed batch, with statistics taken from that batch.
\<close>

theorem fit_transform_eq_transform:
  "fst (fit_transform self df) = transform self' df
   \<and> transform self' df = handle_outliers (handle_missing_values df)"
  by (simp add: fit_transform_def transform_def Let_def)

theorem fit_transform_eq_transform_witness:
  "map time_spent (fst (fit_transform \<lparr>is_fitted = True\<rparr> sample_events))
     = [Some 10, Some 25, Some 20, Some 30, Some 45]"
proof -
  have "fst (fit_transform \<lparr>is_fitted = True\<rparr> sample_events)
          = transform \<lparr>is_fitted = False\<rparr> sample_events"
    using fit_transform_eq_transform [of "\<lparr>is_fitted = True\<rparr>" sample_events "\<lparr>is_fitted = False\<rparr>"]
    by (rule conjunct1)
  then show ?thesis by (simp only: sample_transform)
qed

subsection \<open>Student features\<close>

lemma map_of_score_trend_by_student:
  assumes "s \<in> student_id ` set df"
  shows "map_of (score_trend_by_student df) s
           = Some (calculate_score_trend (filter (\<lambda>r. student_id r = s) df))"
proof -
  have "s \<in> set (sort (remdups (map student_id df)))" using assms by simp
  then show ?thesis
    unfolding score_trend_by_student_def by (simp add: map_of_map_restrict)
qed

lemma sf_score_trend_row:
  assumes "f \<in> set (engineer_student_features df)"
  shows "sf_score_trend f =
           (case calculate_score_trend (filter (\<lambda>r. student_id r = sf_student_id f) df) of
              Some t \<Rightarrow> t | None \<Rightarrow> 0)"
proof -
  from assms have "\<exists>r \<in> set df. sf_student_id f = student_id r
      \<and> sf_score_trend f = (case map_of (score_trend_by_student df) (student_id r) of
                     Some (Some t) \<Rightarrow> t | _ \<Rightarrow> 0)"
    by (auto simp: engineer_student_features_def Let_def)
  then obtain r where r: "r \<in> set df" and f: "sf_student_id f = student_id r"
    and t: "sf_score_trend f = (case map_of (score_trend_by_student df) (student_id r) of
                     Some (Some t) \<Rightarrow> t | _ \<Rightarrow> 0)"
    by blast
  from r have "student_id r \<in> student_id ` set df" by simp
  then show ?thesis
    unfolding t f by (simp add: map_of_score_trend_by_student split: option.splits)
qed

lemma score_trend_single_course:
  assumes f: "f \<in> set (engineer_student_features df)"
    and one: "\<forall>r \<in> set df. student_id r = sf_student_id f \<longrightarrow> course_id r = sf_course_id f"
  shows "sf_score_trend f =
           (case calculate_score_trend
                   (filter (\<lambda>r. student_id r = sf_student_id f \<and> course_id r = sf_course_id f) df) of
              Some t \<Rightarrow> t | None \<Rightarrow> 0)"
proof -
  have "filter (\<lambda>r. student_id r = sf_student_id f) df
        = filter (\<lambda>r. student_id r = sf_student_id f \<and> course_id r = sf_course_id f) df"
    using one by (intro filter_cong) auto
  then show ?thesis using sf_score_trend_row [OF f] by simp
qed

text \<open>
  C1: the \<open>score_trend\<close> of a (student, course) feature vector should be 0 when that key
  has fewer than 4 events. The code groups by \<open>student_id\<close> alone: for the student of
  \<open>two_course_events\<close> each of the two keys has 2 events, and both feature vectors get the
  trend 10 computed from the 4 events of the two courses together.
\<close>

theorem score_trend_mixes_courses:
  "map sf_student_id (engineer_student_features two_course_events) = [1, 1]
   \<and> map sf_course_id (engineer_student_features two_course_events) = [1, 2]
   \<and> map sf_chapters_attempted (engineer_student_features two_course_events) = [2, 2]
   \<and> map sf_score_trend (engineer_student_features two_course_events) = [10, 10]"
  by (simp add: engineer_student_features_def score_trend_by_student_def
      low_score_count_by_student_def two_course_events_def calculate_score_trend_def
      series_mean_def series_sum_def dropna_def Let_def)

end
